theory Spec2Isabelle
  imports Complex_Main
begin

section \<open>Python values and exceptions\<close>

text \<open>
  The module \<^verbatim>\<open>src/src/money.py\<close> defines one class, \<^verbatim>\<open>Money\<close>, whose methods inspect
  the run-time type of their argument with \<^verbatim>\<open>isinstance\<close>. The model therefore has a
  datatype of the Python objects a caller can pass: an \<^verbatim>\<open>int\<close> (unbounded; a \<^verbatim>\<open>bool\<close>
  is a subclass of \<^verbatim>\<open>int\<close> and is represented by its integer value), a \<^verbatim>\<open>float\<close>,
  a \<^verbatim>\<open>str\<close>, a \<^verbatim>\<open>Money\<close>, and \<^verbatim>\<open>None\<close> standing for an object of any other type.

  A \<^verbatim>\<open>float\<close> is an IEEE 754 binary64 value: a finite one is given by the rational
  number it denotes, the others are the two infinities and NaN. The two zeros are
  identified: the module only compares a zero with \<^verbatim>\<open>0\<close> or converts it to an
  integer, and both zeros agree there. Strings are lists of 8-bit characters, that is
  Python strings whose code points are below 256.
\<close>

datatype pyfloat = Fin rat | PInf | NInf | NaN

record money =
  amount :: int
  currency :: string

datatype pyval = PyInt int | PyFloat pyfloat | PyStr string | PyMoney money | PyNone

text \<open>
  The exceptions the module raises, directly or through the built-in operations it
  calls. \<^verbatim>\<open>ValueError\<close> carries its message, which is what tells the module's four
  \<^verbatim>\<open>raise ValueError(...)\<close> statements apart; \<open>InvalidOperation\<close> is
  \<^verbatim>\<open>decimal.InvalidOperation\<close>.
\<close>

datatype error = ValueError string | ZeroDivisionError | OverflowError | InvalidOperation

definition rbind :: "error + 'a \<Rightarrow> ('a \<Rightarrow> error + 'b) \<Rightarrow> error + 'b" where
  "rbind r f = (case r of Inl e \<Rightarrow> Inl e | Inr v \<Rightarrow> f v)"

text \<open>The value an \<^verbatim>\<open>isinstance(x, (int, float))\<close> check has let through.\<close>

datatype number = NInt int | NFloat pyfloat

fun to_pyval :: "number \<Rightarrow> pyval" where
  "to_pyval (NInt n) = PyInt n"
| "to_pyval (NFloat f) = PyFloat f"

section \<open>Binary64 arithmetic\<close>

text \<open>Rounding a rational to the nearest integer, ties to the even one.\<close>

definition round_half_even :: "rat \<Rightarrow> int" where
  "round_half_even q =
     (let f = \<lfloor>q\<rfloor>; d = q - of_int f
      in if d < 1 / 2 then f else if 1 / 2 < d then f + 1 else if even f then f else f + 1)"

text \<open>The number of binary digits of a positive integer.\<close>

function bitlen :: "int \<Rightarrow> int" where
  "bitlen n = (if n \<le> 0 then 0 else 1 + bitlen (n div 2))"
  by pat_completeness auto
termination
  by (relation "measure nat") auto

declare bitlen.simps [simp del]

definition pow2 :: "int \<Rightarrow> rat" where
  "pow2 e = (if 0 \<le> e then 2 ^ nat e else 1 / 2 ^ nat (- e))"

text \<open>For \<open>0 < a\<close>, the integer \<open>k\<close> with \<open>2 ^ k \<le> a < 2 ^ (k + 1)\<close>.\<close>

definition ilog2 :: "rat \<Rightarrow> int" where
  "ilog2 a = (if 1 \<le> a then bitlen \<lfloor>a\<rfloor> - 1 else - bitlen (\<lceil>1 / a\<rceil> - 1))"

text \<open>
  The binary64 value nearest to a rational, ties to the even significand: 53 significant
  bits, least exponent \<open>- 1074\<close> (subnormal numbers included), and an infinity once the
  rounded magnitude reaches \<open>2 ^ 1024\<close>.
\<close>

definition fl_round :: "rat \<Rightarrow> pyfloat" where
  "fl_round x =
     (if x = 0 then Fin 0
      else let e = max (ilog2 \<bar>x\<bar> - 52) (- 1074);
               v = of_int (round_half_even (\<bar>x\<bar> / pow2 e)) * pow2 e
           in if 2 ^ 1024 \<le> v then (if 0 < x then PInf else NInf) else Fin (sgn x * v))"

text \<open>The C comparisons \<^verbatim>\<open>x < 0\<close> and \<^verbatim>\<open>x > y\<close> on doubles; both are false on NaN.\<close>

fun flt0 :: "pyfloat \<Rightarrow> bool" where
  "flt0 (Fin a) = (a < 0)"
| "flt0 NInf = True"
| "flt0 _ = False"

fun fgt :: "pyfloat \<Rightarrow> pyfloat \<Rightarrow> bool" where
  "fgt NaN _ = False"
| "fgt _ NaN = False"
| "fgt (Fin a) (Fin b) = (b < a)"
| "fgt PInf y = (y \<noteq> PInf)"
| "fgt x NInf = (x \<noteq> NInf)"
| "fgt _ _ = False"

fun ieee_neg :: "pyfloat \<Rightarrow> pyfloat" where
  "ieee_neg (Fin a) = Fin (- a)"
| "ieee_neg PInf = NInf"
| "ieee_neg NInf = PInf"
| "ieee_neg NaN = NaN"

fun ieee_add :: "pyfloat \<Rightarrow> pyfloat \<Rightarrow> pyfloat" where
  "ieee_add NaN _ = NaN"
| "ieee_add _ NaN = NaN"
| "ieee_add (Fin a) (Fin b) = fl_round (a + b)"
| "ieee_add PInf NInf = NaN"
| "ieee_add NInf PInf = NaN"
| "ieee_add PInf _ = PInf"
| "ieee_add NInf _ = NInf"
| "ieee_add (Fin a) y = y"

definition ieee_sub :: "pyfloat \<Rightarrow> pyfloat \<Rightarrow> pyfloat" where
  "ieee_sub x y = ieee_add x (ieee_neg y)"

fun ieee_mul :: "pyfloat \<Rightarrow> pyfloat \<Rightarrow> pyfloat" where
  "ieee_mul NaN _ = NaN"
| "ieee_mul _ NaN = NaN"
| "ieee_mul (Fin a) (Fin b) = fl_round (a * b)"
| "ieee_mul x y =
     (if x = Fin 0 \<or> y = Fin 0 then NaN else if flt0 x = flt0 y then PInf else NInf)"

fun ieee_div :: "pyfloat \<Rightarrow> pyfloat \<Rightarrow> pyfloat" where
  "ieee_div NaN _ = NaN"
| "ieee_div _ NaN = NaN"
| "ieee_div (Fin a) (Fin b) =
     (if b = 0 then (if a = 0 then NaN else if 0 < a then PInf else NInf)
      else fl_round (a / b))"
| "ieee_div (Fin a) _ = Fin 0"
| "ieee_div x (Fin b) = (if flt0 x = (b < 0) then PInf else NInf)"
| "ieee_div _ _ = NaN"

text \<open>
  \<^verbatim>\<open>fmod\<close> of the C library: the remainder with the sign of the dividend, always exact.
\<close>

definition trunc :: "rat \<Rightarrow> int" where
  "trunc q = (if 0 \<le> q then \<lfloor>q\<rfloor> else \<lceil>q\<rceil>)"

fun ieee_fmod :: "pyfloat \<Rightarrow> pyfloat \<Rightarrow> pyfloat" where
  "ieee_fmod (Fin a) (Fin b) = (if b = 0 then NaN else Fin (a - b * of_int (trunc (a / b))))"
| "ieee_fmod (Fin a) PInf = Fin a"
| "ieee_fmod (Fin a) NInf = Fin a"
| "ieee_fmod _ _ = NaN"

fun ieee_floor :: "pyfloat \<Rightarrow> pyfloat" where
  "ieee_floor (Fin a) = Fin (of_int \<lfloor>a\<rfloor>)"
| "ieee_floor x = x"

section \<open>The built-in operations the module calls\<close>

text \<open>
  Conversion of an \<^verbatim>\<open>int\<close> to a \<^verbatim>\<open>float\<close>, as the mixed operations
  \<^verbatim>\<open>int * float\<close>, \<^verbatim>\<open>int / float\<close> and \<^verbatim>\<open>int // float\<close> do first: correctly rounded,
  \<^verbatim>\<open>OverflowError\<close> when the integer is too large.
\<close>

definition float_of_int :: "int \<Rightarrow> error + pyfloat" where
  "float_of_int n = (case fl_round (of_int n) of Fin q \<Rightarrow> Inr (Fin q) | _ \<Rightarrow> Inl OverflowError)"

text \<open>
  \<^verbatim>\<open>a / b\<close> on two integers: the correctly rounded quotient, \<^verbatim>\<open>ZeroDivisionError\<close> on a
  zero divisor, \<^verbatim>\<open>OverflowError\<close> when the quotient is too large for a \<^verbatim>\<open>float\<close>.
\<close>

definition int_truediv_int :: "int \<Rightarrow> int \<Rightarrow> error + pyfloat" where
  "int_truediv_int a b =
     (if b = 0 then Inl ZeroDivisionError
      else case fl_round (of_int a / of_int b) of
             Fin q \<Rightarrow> Inr (Fin q)
           | _ \<Rightarrow> Inl OverflowError)"

text \<open>\<^verbatim>\<open>x / y\<close> on two floats.\<close>

definition float_truediv :: "pyfloat \<Rightarrow> pyfloat \<Rightarrow> error + pyfloat" where
  "float_truediv x y = (if y = Fin 0 then Inl ZeroDivisionError else Inr (ieee_div x y))"

text \<open>
  \<^verbatim>\<open>x // y\<close> on two floats, after CPython's \<^verbatim>\<open>float_floor_div\<close>: the quotient is
  computed from \<^verbatim>\<open>fmod\<close>, corrected by one when the remainder and the divisor differ
  in sign, and snapped to the nearest integral value.
\<close>

definition float_floordiv :: "pyfloat \<Rightarrow> pyfloat \<Rightarrow> error + pyfloat" where
  "float_floordiv vx wx =
     (if wx = Fin 0 then Inl ZeroDivisionError
      else let md = ieee_fmod vx wx;
               dv = ieee_div (ieee_sub vx md) wx;
               dv' = (if md \<noteq> Fin 0 \<and> flt0 wx \<noteq> flt0 md then ieee_sub dv (Fin 1) else dv)
           in if dv' \<noteq> Fin 0
              then let fd = ieee_floor dv'
                   in Inr (if fgt (ieee_sub dv' fd) (Fin (1 / 2)) then ieee_add fd (Fin 1) else fd)
              else Inr (Fin 0))"

text \<open>\<^verbatim>\<open>a * x\<close>, \<^verbatim>\<open>a / x\<close> and \<^verbatim>\<open>a // x\<close> for an integer \<open>a\<close> and a number \<open>x\<close>.\<close>

fun int_mul :: "int \<Rightarrow> number \<Rightarrow> error + number" where
  "int_mul a (NInt b) = Inr (NInt (a * b))"
| "int_mul a (NFloat f) = rbind (float_of_int a) (\<lambda>x. Inr (NFloat (ieee_mul x f)))"

fun int_truediv :: "int \<Rightarrow> number \<Rightarrow> error + pyfloat" where
  "int_truediv a (NInt b) = int_truediv_int a b"
| "int_truediv a (NFloat f) = rbind (float_of_int a) (\<lambda>x. float_truediv x f)"

fun int_floordiv :: "int \<Rightarrow> number \<Rightarrow> error + number" where
  "int_floordiv a (NInt b) = (if b = 0 then Inl ZeroDivisionError else Inr (NInt (a div b)))"
| "int_floordiv a (NFloat f) =
     rbind (float_of_int a) (\<lambda>x. rbind (float_floordiv x f) (\<lambda>q. Inr (NFloat q)))"

text \<open>\<^verbatim>\<open>x == 0\<close> for a number \<open>x\<close>.\<close>

fun num_is_zero :: "number \<Rightarrow> bool" where
  "num_is_zero (NInt b) = (b = 0)"
| "num_is_zero (NFloat f) = (f = Fin 0)"

text \<open>
  The built-in \<^verbatim>\<open>round(x)\<close> with one argument: an \<^verbatim>\<open>int\<close> is returned as it is, a
  \<^verbatim>\<open>float\<close> is rounded half to even to an \<^verbatim>\<open>int\<close>. \<^verbatim>\<open>math.floor\<close> fails on the same
  floats.
\<close>

fun float_round :: "pyfloat \<Rightarrow> error + int" where
  "float_round (Fin q) = Inr (round_half_even q)"
| "float_round NaN = Inl (ValueError ''cannot convert float NaN to integer'')"
| "float_round _ = Inl OverflowError"

fun builtin_round :: "number \<Rightarrow> error + int" where
  "builtin_round (NInt n) = Inr n"
| "builtin_round (NFloat f) = float_round f"

fun math_floor :: "pyfloat \<Rightarrow> error + int" where
  "math_floor (Fin q) = Inr \<lfloor>q\<rfloor>"
| "math_floor NaN = Inl (ValueError ''cannot convert float NaN to integer'')"
| "math_floor _ = Inl OverflowError"

section \<open>The class \<^verbatim>\<open>Money\<close>\<close>

text \<open>
  \<^verbatim>\<open>__assert_amount\<close> raises unless its argument is an \<^verbatim>\<open>int\<close>; \<^verbatim>\<open>__assert_operand\<close>
  raises unless it is an \<^verbatim>\<open>int\<close> or a \<^verbatim>\<open>float\<close>. Both return the argument at the
  type the check has established.
\<close>

definition assert_amount :: "pyval \<Rightarrow> error + int" where
  "assert_amount a =
     (case a of PyInt n \<Rightarrow> Inr n | _ \<Rightarrow> Inl (ValueError ''Amount must be an integer''))"

definition assert_operand :: "pyval \<Rightarrow> error + number" where
  "assert_operand operand =
     (case operand of
        PyInt n \<Rightarrow> Inr (NInt n)
      | PyFloat f \<Rightarrow> Inr (NFloat f)
      | _ \<Rightarrow> Inl (ValueError ''Operand must be a numeric value''))"

text \<open>
  The constructor \<^verbatim>\<open>Money(amount)\<close>, which every \<^verbatim>\<open>self.__class__(...)\<close> of the
  module calls: the amount is checked and stored, the currency is always \<^verbatim>\<open>"USD"\<close>.
\<close>

definition Money :: "pyval \<Rightarrow> error + money" where
  "Money a = rbind (assert_amount a) (\<lambda>n. Inr \<lparr>amount = n, currency = ''USD''\<rparr>)"

definition instance_of :: "money \<Rightarrow> pyval \<Rightarrow> error + money" where
  "instance_of self a = rbind (assert_amount a) (\<lambda>n. Money (PyInt n))"

subsection \<open>Construction from a float and from a string\<close>

definition from_float :: "pyval \<Rightarrow> error + money" where
  "from_float a =
     (case a of
        PyFloat f \<Rightarrow> rbind (math_floor (ieee_mul f (Fin 100))) (\<lambda>n. Money (PyInt n))
      | _ \<Rightarrow> Inl (ValueError ''Amount must be a float''))"

text \<open>
  \<^verbatim>\<open>sub(r'[^\d.]', '', currency_str)\<close> deletes every character that is neither a decimal
  digit nor a full stop. Among the code points below 256 the decimal digits are
  \<^verbatim>\<open>0\<close> to \<^verbatim>\<open>9\<close>.
\<close>

definition is_digit :: "char \<Rightarrow> bool" where
  "is_digit c = (c \<in> set ''0123456789'')"

definition clean :: "string \<Rightarrow> string" where
  "clean s = filter (\<lambda>c. is_digit c \<or> c = CHR ''.'') s"

definition digits_val :: "string \<Rightarrow> int" where
  "digits_val s = foldl (\<lambda>acc c. 10 * acc + (of_char c - 48)) 0 s"

text \<open>
  \<^verbatim>\<open>Decimal(text)\<close> on a text of digits and full stops, the only texts \<open>clean\<close>
  produces: the text is a decimal literal when it has at least one digit and at most one
  full stop, and then denotes its exact value; any other text raises
  \<^verbatim>\<open>decimal.InvalidOperation\<close>.
\<close>

definition Decimal :: "string \<Rightarrow> error + rat" where
  "Decimal s =
     (let ip = takeWhile is_digit s; rest = dropWhile is_digit s
      in if rest = [] then (if ip = [] then Inl InvalidOperation else Inr (of_int (digits_val ip)))
         else if hd rest = CHR ''.'' \<and> list_all is_digit (tl rest) \<and> (ip \<noteq> [] \<or> tl rest \<noteq> [])
         then Inr (of_int (digits_val (ip @ tl rest)) / 10 ^ length (tl rest))
         else Inl InvalidOperation)"

text \<open>
  \<^verbatim>\<open>float(value)\<close> on a \<^verbatim>\<open>Decimal\<close>: the nearest float, an infinity when the value is
  too large.
\<close>

definition from_string :: "pyval \<Rightarrow> error + money" where
  "from_string currency_str =
     (case currency_str of
        PyStr s \<Rightarrow> rbind (Decimal (clean s)) (\<lambda>v. from_float (PyFloat (fl_round v)))
      | _ \<Rightarrow> Inl (ValueError ''Amount must be a string''))"

subsection \<open>Arithmetic\<close>

definition add :: "money \<Rightarrow> pyval \<Rightarrow> error + money" where
  "add self other =
     (case other of
        PyMoney m \<Rightarrow> Money (PyInt (amount self + amount m))
      | _ \<Rightarrow> rbind (assert_amount other) (\<lambda>k. Money (PyInt (amount self + k))))"

definition radd :: "money \<Rightarrow> pyval \<Rightarrow> error + money" where
  "radd self other = add self other"

definition sub :: "money \<Rightarrow> pyval \<Rightarrow> error + money" where
  "sub self other =
     (case other of
        PyMoney m \<Rightarrow> Money (PyInt (amount self - amount m))
      | _ \<Rightarrow> rbind (assert_amount other) (\<lambda>k. Money (PyInt (amount self - k))))"

definition neg :: "money \<Rightarrow> error + money" where
  "neg self = Money (PyInt (- amount self))"

definition rsub :: "money \<Rightarrow> pyval \<Rightarrow> error + money" where
  "rsub self other = rbind (neg self) (\<lambda>m. add m other)"

definition pos :: "money \<Rightarrow> error + money" where
  "pos self = Money (PyInt (amount self))"

definition abs_money :: "money \<Rightarrow> error + money" where
  "abs_money self = Money (PyInt \<bar>amount self\<bar>)"

definition mul :: "money \<Rightarrow> pyval \<Rightarrow> error + money" where
  "mul self factor =
     rbind (assert_operand factor) (\<lambda>x.
     rbind (int_mul (amount self) x) (\<lambda>p.
     rbind (builtin_round p) (\<lambda>r. Money (PyInt r))))"

definition rmul :: "money \<Rightarrow> pyval \<Rightarrow> error + money" where
  "rmul self factor = mul self factor"

text \<open>
  \<^verbatim>\<open>__truediv__\<close> and \<^verbatim>\<open>__floordiv__\<close> return what the source returns: the bare result
  of \<^verbatim>\<open>round\<close> or of \<^verbatim>\<open>//\<close> when the divisor is a \<^verbatim>\<open>Money\<close>, and a new \<^verbatim>\<open>Money\<close>
  when it is a number.
\<close>

definition truediv :: "money \<Rightarrow> pyval \<Rightarrow> error + pyval" where
  "truediv self other =
     (case other of
        PyMoney m \<Rightarrow>
          if amount m = 0 then Inl ZeroDivisionError
          else rbind (int_truediv_int (amount self) (amount m)) (\<lambda>q.
               rbind (float_round q) (\<lambda>r. Inr (PyInt r)))
      | _ \<Rightarrow>
          rbind (assert_operand other) (\<lambda>x.
            if num_is_zero x then Inl ZeroDivisionError
            else rbind (int_truediv (amount self) x) (\<lambda>q.
                 rbind (float_round q) (\<lambda>r.
                 rbind (Money (PyInt r)) (\<lambda>m. Inr (PyMoney m))))))"

definition floordiv :: "money \<Rightarrow> pyval \<Rightarrow> error + pyval" where
  "floordiv self other =
     (case other of
        PyMoney m \<Rightarrow>
          if amount m = 0 then Inl ZeroDivisionError
          else Inr (PyInt (amount self div amount m))
      | _ \<Rightarrow>
          rbind (assert_operand other) (\<lambda>x.
            if num_is_zero x then Inl ZeroDivisionError
            else rbind (int_floordiv (amount self) x) (\<lambda>q.
                 rbind (Money (to_pyval q)) (\<lambda>m. Inr (PyMoney m)))))"

subsection \<open>Comparison, rounding and casts\<close>

definition eq :: "money \<Rightarrow> pyval \<Rightarrow> error + bool" where
  "eq self other =
     (case other of
        PyMoney m \<Rightarrow> Inr (amount self = amount m)
      | _ \<Rightarrow> rbind (assert_amount other) (\<lambda>k. Inr (amount self = k)))"

definition compare :: "money \<Rightarrow> pyval \<Rightarrow> (int \<Rightarrow> int \<Rightarrow> bool) \<Rightarrow> error + bool" where
  "compare self other comparison_operator =
     (case other of
        PyMoney m \<Rightarrow> Inr (comparison_operator (amount self) (amount m))
      | _ \<Rightarrow> rbind (assert_amount other) (\<lambda>k. Inr (comparison_operator (amount self) k)))"

text \<open>
  \<^verbatim>\<open>__round__\<close>: \<^verbatim>\<open>self.amount / 100\<close> is a \<^verbatim>\<open>float\<close>, \<^verbatim>\<open>Decimal\<close> of a float is its
  exact value, and \<^verbatim>\<open>quantize\<close> to exponent 0 rounds it half to even to an integer.
  Under the default context of 28 digits \<^verbatim>\<open>quantize\<close> raises
  \<^verbatim>\<open>decimal.InvalidOperation\<close> when the result has more than 28 digits, and on an
  infinity; \<^verbatim>\<open>int\<close> of a NaN raises \<^verbatim>\<open>ValueError\<close>.
\<close>

fun quantize_int :: "pyfloat \<Rightarrow> error + int" where
  "quantize_int (Fin q) =
     (let r = round_half_even q in if 10 ^ 28 \<le> \<bar>r\<bar> then Inl InvalidOperation else Inr r)"
| "quantize_int NaN = Inl (ValueError ''cannot convert NaN to integer'')"
| "quantize_int _ = Inl InvalidOperation"

definition round_money :: "money \<Rightarrow> error + money" where
  "round_money self =
     rbind (int_truediv_int (amount self) 100) (\<lambda>decimal_value.
     rbind (quantize_int decimal_value) (\<lambda>rounded. Money (PyInt (rounded * 100))))"

definition to_integer :: "money \<Rightarrow> int" where
  "to_integer self = amount self"

text \<open>The two \<^verbatim>\<open>isinstance\<close> tests the operators make on their operand.\<close>

fun isinstance_Money :: "pyval \<Rightarrow> bool" where
  "isinstance_Money (PyMoney m) = True"
| "isinstance_Money _ = False"

fun isinstance_int :: "pyval \<Rightarrow> bool" where
  "isinstance_int (PyInt n) = True"
| "isinstance_int _ = False"

text \<open>
  A divisor that is zero: the integer \<^verbatim>\<open>0\<close>, the float \<^verbatim>\<open>0.0\<close>, or a \<^verbatim>\<open>Money\<close> whose
  amount is \<^verbatim>\<open>0\<close>.
\<close>

fun zero_divisor :: "pyval \<Rightarrow> bool" where
  "zero_divisor (PyInt n) = (n = 0)"
| "zero_divisor (PyFloat f) = (f = Fin 0)"
| "zero_divisor (PyMoney m) = (amount m = 0)"
| "zero_divisor _ = False"

fun isinstance_str :: "pyval \<Rightarrow> bool" where
  "isinstance_str (PyStr s) = True"
| "isinstance_str _ = False"

section \<open>Basic facts\<close>

lemma rbind_Inl [simp]: "rbind (Inl e) f = Inl e"
  by (simp add: rbind_def)

lemma rbind_Inr [simp]: "rbind (Inr v) f = f v"
  by (simp add: rbind_def)

lemma rbind_eq_Inl: "rbind r f = Inl e \<longleftrightarrow> r = Inl e \<or> (\<exists>v. r = Inr v \<and> f v = Inl e)"
  by (cases r) simp_all

lemma rbind_eq_Inr: "rbind r f = Inr y \<longleftrightarrow> (\<exists>v. r = Inr v \<and> f v = Inr y)"
  by (cases r) simp_all

lemma Money_PyInt [simp]: "Money (PyInt n) = Inr \<lparr>amount = n, currency = ''USD''\<rparr>"
  by (simp add: Money_def assert_amount_def)

lemma assert_amount_not_int:
  "\<not> isinstance_int a \<Longrightarrow> assert_amount a = Inl (ValueError ''Amount must be an integer'')"
  by (cases a) (simp_all add: assert_amount_def)

lemma Money_not_int:
  "\<not> isinstance_int a \<Longrightarrow> Money a = Inl (ValueError ''Amount must be an integer'')"
  by (simp add: Money_def assert_amount_not_int)

section \<open>Addition, subtraction and multiplication\<close>

text \<open>
  Claim C7. Adding an integer \<open>k\<close> to a \<^verbatim>\<open>Money\<close> \<open>m\<close> and subtracting it again gives a
  value that \<^verbatim>\<open>==\<close> finds equal to \<open>m\<close>, and so does subtracting first and adding
  afterwards: \<^verbatim>\<open>(m + k) - k == m\<close> and \<^verbatim>\<open>(m - k) + k == m\<close> both evaluate to
  \<^verbatim>\<open>True\<close>, for every \<open>m\<close> and every integer \<open>k\<close>.
\<close>

theorem add_sub_int_round_trip:
  "rbind (add m (PyInt k)) (\<lambda>a. rbind (sub a (PyInt k)) (\<lambda>b. eq b (PyMoney m))) = Inr True
   \<and> rbind (sub m (PyInt k)) (\<lambda>a. rbind (add a (PyInt k)) (\<lambda>b. eq b (PyMoney m))) = Inr True"
  by (simp add: add_def sub_def eq_def assert_amount_def)

text \<open>
  Claim C8. For every \<^verbatim>\<open>Money\<close> \<open>m\<close> and integer \<open>k\<close>, \<^verbatim>\<open>m * k\<close> and the reflected
  \<^verbatim>\<open>k * m\<close> both succeed and return a \<^verbatim>\<open>Money\<close> whose amount is exactly
  \<open>amount m * k\<close>: \<^verbatim>\<open>round\<close> returns the integer product as it is.
\<close>

theorem mul_int_exact:
  "mul m (PyInt k) = Inr \<lparr>amount = amount m * k, currency = ''USD''\<rparr>
   \<and> rmul m (PyInt k) = Inr \<lparr>amount = amount m * k, currency = ''USD''\<rparr>
   \<and> rbind (int_mul (amount m) (NInt k)) builtin_round = Inr (amount m * k)"
  by (simp add: mul_def rmul_def assert_operand_def)

text \<open>
  Claim C3, as the code has it. \<^verbatim>\<open>__add__\<close> and \<^verbatim>\<open>__sub__\<close> succeed exactly on a
  \<^verbatim>\<open>Money\<close> or an integer operand. On a float they raise
  \<^verbatim>\<open>ValueError("Amount must be an integer")\<close>: they check the operand with
  \<^verbatim>\<open>__assert_amount\<close>, so the error is the one the constructor raises on a float, and
  not the error \<^verbatim>\<open>ValueError("Operand must be a numeric value")\<close> of
  \<^verbatim>\<open>__assert_operand\<close>.
\<close>

theorem add_sub_float_amount_error:
  "add m (PyFloat f) = Inl (ValueError ''Amount must be an integer'')
   \<and> sub m (PyFloat f) = Inl (ValueError ''Amount must be an integer'')
   \<and> Money (PyFloat f) = Inl (ValueError ''Amount must be an integer'')
   \<and> (\<exists>r. add m x = Inr r) = (isinstance_Money x \<or> isinstance_int x)
   \<and> (\<exists>r. sub m x = Inr r) = (isinstance_Money x \<or> isinstance_int x)"
  by (cases x) (simp_all add: add_def sub_def assert_amount_def Money_def)

text \<open>
  The claim as the specification states it (the error of a float operand is the
  operand-type error and not the constructor's amount error) fails at
  \<^verbatim>\<open>Money(1000) + 10.0\<close>: the error raised is the constructor's.
\<close>

theorem add_float_operand_error_counterexample:
  "add \<lparr>amount = 1000, currency = ''USD''\<rparr> (PyFloat (Fin 10))
     \<noteq> Inl (ValueError ''Operand must be a numeric value'')
   \<and> add \<lparr>amount = 1000, currency = ''USD''\<rparr> (PyFloat (Fin 10)) = Money (PyFloat (Fin 10))
   \<and> assert_operand PyNone = Inl (ValueError ''Operand must be a numeric value'')"
  by (simp add: add_def assert_amount_def Money_def assert_operand_def)

section \<open>Equality\<close>

text \<open>
  Claim C9. For every \<^verbatim>\<open>Money\<close> \<open>m\<close> and every operand \<open>x\<close> that is neither a
  \<^verbatim>\<open>Money\<close> nor an integer, \<^verbatim>\<open>m == x\<close> does not return a boolean: it raises the
  amount error \<^verbatim>\<open>ValueError("Amount must be an integer")\<close> of \<^verbatim>\<open>__assert_amount\<close>,
  the error the constructor raises on \<open>x\<close>.
\<close>

theorem eq_rejects_non_int:
  assumes "\<not> isinstance_Money x" and "\<not> isinstance_int x"
  shows "eq m x = Inl (ValueError ''Amount must be an integer'') \<and> Money x = Inl (ValueError ''Amount must be an integer'')"
  using assms by (cases x) (simp_all add: eq_def assert_amount_def Money_def)

theorem eq_rejects_non_int_witness:
  "\<not> isinstance_Money (PyFloat (Fin 1000)) \<and> \<not> isinstance_int (PyFloat (Fin 1000))
   \<and> eq \<lparr>amount = 1000, currency = ''USD''\<rparr> (PyFloat (Fin 1000))
       = Inl (ValueError ''Amount must be an integer'')
   \<and> eq \<lparr>amount = 1000, currency = ''USD''\<rparr> (PyStr ''1000'')
       = Inl (ValueError ''Amount must be an integer'')"
  using eq_rejects_non_int [of "PyFloat (Fin 1000)" "\<lparr>amount = 1000, currency = ''USD''\<rparr>"]
    eq_rejects_non_int [of "PyStr ''1000''" "\<lparr>amount = 1000, currency = ''USD''\<rparr>"]
  by simp

section \<open>Division\<close>

lemma float_of_int_cases:
  "float_of_int n = Inl OverflowError \<or> (\<exists>q. float_of_int n = Inr (Fin q))"
  by (simp add: float_of_int_def split: pyfloat.splits)

lemma int_truediv_int_cases:
  "b \<noteq> 0 \<Longrightarrow>
   int_truediv_int a b = Inl OverflowError \<or> (\<exists>q. int_truediv_int a b = Inr (Fin q))"
  by (simp add: int_truediv_int_def split: pyfloat.splits)

lemma float_round_not_zde: "float_round q \<noteq> Inl ZeroDivisionError"
  by (cases q) simp_all

lemma float_floordiv_zde: "(float_floordiv x y = Inl ZeroDivisionError) = (y = Fin 0)"
  by (simp add: float_floordiv_def Let_def)

lemma Money_not_zde: "Money a \<noteq> Inl ZeroDivisionError"
  by (cases a) (simp_all add: Money_def assert_amount_def)

lemma int_truediv_not_zde:
  assumes "\<not> num_is_zero x"
  shows "int_truediv a x \<noteq> Inl ZeroDivisionError"
proof (cases x)
  case (NInt b)
  with assms show ?thesis using int_truediv_int_cases [of b a] by auto
next
  case (NFloat f)
  with assms show ?thesis
    using float_of_int_cases [of a] by (auto simp: float_truediv_def)
qed

lemma int_floordiv_not_zde:
  assumes "\<not> num_is_zero x"
  shows "int_floordiv a x \<noteq> Inl ZeroDivisionError"
proof (cases x)
  case (NInt b)
  with assms show ?thesis by simp
next
  case (NFloat f)
  with assms show ?thesis
    using float_of_int_cases [of a]
    by (auto simp: rbind_eq_Inl float_floordiv_zde)
qed

text \<open>
  Claim C5. \<^verbatim>\<open>__truediv__\<close> and \<^verbatim>\<open>__floordiv__\<close> raise \<^verbatim>\<open>ZeroDivisionError\<close> if and
  only if the divisor is zero: the integer \<^verbatim>\<open>0\<close>, the float \<^verbatim>\<open>0.0\<close>, or a \<^verbatim>\<open>Money\<close>
  whose amount is \<^verbatim>\<open>0\<close>. The result is then the error and no value; on every other
  divisor neither operation raises \<^verbatim>\<open>ZeroDivisionError\<close>.
\<close>

theorem division_by_zero_iff:
  "(truediv m x = Inl ZeroDivisionError) = zero_divisor x
   \<and> (floordiv m x = Inl ZeroDivisionError) = zero_divisor x"
proof (cases x)
  case (PyInt n)
  then show ?thesis
    using int_truediv_not_zde [of "NInt n" "amount m"]
      int_floordiv_not_zde [of "NInt n" "amount m"]
    by (auto simp: truediv_def floordiv_def assert_operand_def rbind_eq_Inl
        float_round_not_zde Money_not_zde)
next
  case (PyFloat f)
  then show ?thesis
    using int_truediv_not_zde [of "NFloat f" "amount m"]
      int_floordiv_not_zde [of "NFloat f" "amount m"]
    by (auto simp: truediv_def floordiv_def assert_operand_def rbind_eq_Inl
        float_round_not_zde Money_not_zde)
next
  case (PyStr s)
  then show ?thesis by (simp add: truediv_def floordiv_def assert_operand_def)
next
  case (PyMoney d)
  then show ?thesis
    using int_truediv_int_cases [of "amount d" "amount m"]
    by (auto simp: truediv_def floordiv_def rbind_eq_Inl float_round_not_zde)
next
  case PyNone
  then show ?thesis by (simp add: truediv_def floordiv_def assert_operand_def)
qed

subsection \<open>Evaluating binary64 rounding on numerals\<close>

lemma floor_rat_numeral [simp]:
  "\<lfloor>numeral a / numeral b :: rat\<rfloor> = numeral a div numeral b"
  by (metis floor_divide_of_int_eq of_int_numeral)

lemma floor_rat_neg_numeral [simp]:
  "\<lfloor>- (numeral a / numeral b) :: rat\<rfloor> = - numeral a div numeral b"
  by (metis divide_minus_left floor_divide_of_int_eq of_int_neg_numeral of_int_numeral)

lemma ceiling_rat_numeral [simp]:
  "\<lceil>numeral a / numeral b :: rat\<rceil> = - (- numeral a div numeral b)"
  unfolding ceiling_def by (metis floor_rat_neg_numeral)

lemmas fl_eval = fl_round_def ilog2_def bitlen.simps pow2_def round_half_even_def Let_def

subsection \<open>A \<^verbatim>\<open>Money\<close> divided by a \<^verbatim>\<open>Money\<close>\<close>

lemma bitlen_bounds:
  "0 < n \<Longrightarrow> 0 < bitlen n \<and> 2 ^ nat (bitlen n - 1) \<le> n \<and> n < 2 ^ nat (bitlen n)"
proof (induction n rule: bitlen.induct)
  case (1 n)
  show ?case
  proof (cases "n = 1")
    case True
    then show ?thesis by (simp add: bitlen.simps)
  next
    case False
    with "1.prems" have pos: "0 < n div 2" by simp
    with "1.prems" "1.IH" have IH: "0 < bitlen (n div 2)"
       "2 ^ nat (bitlen (n div 2) - 1) \<le> n div 2" "n div 2 < 2 ^ nat (bitlen (n div 2))"
      by simp_all
    have b: "bitlen n = 1 + bitlen (n div 2)"
      using "1.prems" by (subst bitlen.simps) simp
    from IH(1) have e1: "nat (bitlen n - 1) = Suc (nat (bitlen (n div 2) - 1))"
      and e2: "nat (bitlen n) = Suc (nat (bitlen (n div 2)))"
      unfolding b by simp_all
    have "2 * 2 ^ nat (bitlen (n div 2) - 1) \<le> n" using IH(2) by linarith
    moreover have "n < 2 * 2 ^ nat (bitlen (n div 2))" using IH(3) by linarith
    moreover have "0 < bitlen n" using IH(1) b by simp
    ultimately show ?thesis by (simp add: e1 e2)
  qed
qed

lemma round_half_even_of_int: "round_half_even (of_int j) = j"
  by (simp add: round_half_even_def)

text \<open>An integer of magnitude at most \<open>2 ^ 53\<close> is a float: rounding leaves it as it is.\<close>

lemma fl_round_of_int_exact:
  assumes "\<bar>k\<bar> \<le> 2 ^ 53"
  shows "fl_round (of_int k) = Fin (of_int k)"
proof (cases "k = 0")
  case True
  then show ?thesis by (simp add: fl_round_def)
next
  case False
  define n where "n = \<bar>k\<bar>"
  define b where "b = bitlen n"
  from False have npos: "0 < n" by (simp add: n_def)
  from bitlen_bounds [OF npos] have bb: "0 < b" "2 ^ nat (b - 1) \<le> n" "n < 2 ^ nat b"
    by (simp_all add: b_def)
  have "(2::int) ^ nat (b - 1) \<le> 2 ^ 53" using bb(2) assms by (simp add: n_def)
  then have "nat (b - 1) \<le> 53"
    using power_le_imp_le_exp [of "2::int" "nat (b - 1)" 53] by simp
  then have ble: "b \<le> 54" by simp
  have abs_eq: "\<bar>rat_of_int k\<bar> = of_int n" by (simp add: n_def)
  have one_le: "(1::rat) \<le> of_int n" using npos by simp
  have il: "ilog2 (of_int n) = b - 1"
    using one_le by (simp add: ilog2_def b_def)
  have e: "max (ilog2 (rat_of_int n) - 52) (- 1074) = b - 53"
    using bb(1) by (simp add: il)
  have v: "rat_of_int (round_half_even (of_int n / pow2 (b - 53))) * pow2 (b - 53) = of_int n"
  proof (cases "b \<le> 53")
    case True
    then have p: "pow2 (b - 53) = 1 / 2 ^ nat (53 - b)"
      by (cases "b = 53") (simp_all add: pow2_def)
    have "rat_of_int n / pow2 (b - 53) = of_int (n * 2 ^ nat (53 - b))"
      by (simp add: p)
    then have "round_half_even (of_int n / pow2 (b - 53)) = n * 2 ^ nat (53 - b)"
      by (simp only: round_half_even_of_int)
    then show ?thesis by (simp add: p)
  next
    case False
    with ble have b54: "b = 54" by simp
    with bb(2) assms have "n = 2 ^ 53" by (simp add: n_def)
    then show ?thesis by (simp add: b54 pow2_def round_half_even_def)
  qed
  have "n \<le> 2 ^ 53" using assms by (simp add: n_def)
  then have small: "\<not> (2::int) ^ 1024 \<le> n" by simp
  have sg: "sgn (rat_of_int k) * rat_of_int n = of_int k"
    unfolding abs_eq [symmetric] by (rule mult_sgn_abs)
  from False small show ?thesis
    by (simp add: fl_round_def Let_def abs_eq e v sg)
qed

lemma truediv_exact:
  assumes "amount d \<noteq> 0" and "amount d dvd amount m"
    and "\<bar>amount m div amount d\<bar> \<le> 2 ^ 53"
  shows "truediv m (PyMoney d) = Inr (PyInt (amount m div amount d))"
proof -
  from assms(2) obtain q where q: "amount m = amount d * q" ..
  with assms(1) have "amount m div amount d = q" by simp
  moreover from q assms(1) have "rat_of_int (amount m) / of_int (amount d) = of_int q"
    by simp
  ultimately have "rat_of_int (amount m) / of_int (amount d) = of_int (amount m div amount d)"
    by simp
  with fl_round_of_int_exact [OF assms(3)] assms(1) show ?thesis
    by (simp add: truediv_def int_truediv_int_def round_half_even_of_int)
qed

text \<open>
  Claim C1 does not hold of the code. \<^verbatim>\<open>__floordiv__\<close> is annotated \<^verbatim>\<open>-> Money\<close> and
  documented as returning a new money object, and its number branch does wrap the
  quotient in \<^verbatim>\<open>self.__class__\<close>; but its \<^verbatim>\<open>Money\<close> branch returns
  \<^verbatim>\<open>self.amount // other.amount\<close> as it is. For every \<^verbatim>\<open>Money\<close> \<open>m\<close> and \<open>d\<close> the
  result of \<^verbatim>\<open>m // d\<close> is therefore \<^verbatim>\<open>ZeroDivisionError\<close> or the plain integer
  \<open>amount m div amount d\<close>, never a \<^verbatim>\<open>Money\<close>: \<^verbatim>\<open>Money(1000) // Money(3)\<close> is the
  integer \<^verbatim>\<open>333\<close> and not \<^verbatim>\<open>Money(333)\<close>. The other half of the claim holds there:
  \<^verbatim>\<open>Money(1000) / Money(3)\<close> is the plain integer \<^verbatim>\<open>333\<close>.
\<close>

theorem floordiv_money_returns_int:
  "floordiv m (PyMoney d) =
     (if amount d = 0 then Inl ZeroDivisionError else Inr (PyInt (amount m div amount d)))
   \<and> (\<forall>r. floordiv m (PyMoney d) \<noteq> Inr (PyMoney r))
   \<and> floordiv \<lparr>amount = 1000, currency = ''USD''\<rparr> (PyMoney \<lparr>amount = 3, currency = ''USD''\<rparr>)
       = Inr (PyInt 333)
   \<and> floordiv \<lparr>amount = 1000, currency = ''USD''\<rparr> (PyMoney \<lparr>amount = 3, currency = ''USD''\<rparr>)
       \<noteq> Inr (PyMoney \<lparr>amount = 333, currency = ''USD''\<rparr>)
   \<and> truediv \<lparr>amount = 1000, currency = ''USD''\<rparr> (PyMoney \<lparr>amount = 3, currency = ''USD''\<rparr>)
       = Inr (PyInt 333)"
proof -
  have "truediv \<lparr>amount = 1000, currency = ''USD''\<rparr>
      (PyMoney \<lparr>amount = 3, currency = ''USD''\<rparr>) = Inr (PyInt 333)"
    by (simp add: truediv_def int_truediv_int_def fl_eval)
  then show ?thesis by (simp add: floordiv_def)
qed

subsection \<open>Floor division by a float\<close>

lemma int_floordiv_float_cases:
  "(\<exists>e. int_floordiv a (NFloat f) = Inl e) \<or> (\<exists>q. int_floordiv a (NFloat f) = Inr (NFloat q))"
  by (cases "float_of_int a"; cases "float_floordiv (projr (float_of_int a)) f") simp_all

text \<open>
  Claim C2 does not hold of the code. \<^verbatim>\<open>__floordiv__\<close> lets a float divisor through
  \<^verbatim>\<open>__assert_operand\<close>, but \<^verbatim>\<open>self.amount // other\<close> is then a float, and the
  constructor rejects it: floor division by a float never returns a value. At
  \<^verbatim>\<open>Money(1000) // 3.0\<close> the quotient is \<^verbatim>\<open>333.0\<close> and the call raises
  \<^verbatim>\<open>ValueError("Amount must be an integer")\<close>.
\<close>

theorem floordiv_float_never_succeeds:
  "isl (floordiv m (PyFloat f))
   \<and> int_floordiv 1000 (NFloat (Fin 3)) = Inr (NFloat (Fin 333))
   \<and> floordiv \<lparr>amount = 1000, currency = ''USD''\<rparr> (PyFloat (Fin 3))
       = Inl (ValueError ''Amount must be an integer'')"
proof -
  have general: "isl (floordiv m (PyFloat f))"
    using int_floordiv_float_cases [of "amount m" f]
    by (auto simp: floordiv_def assert_operand_def Money_def assert_amount_def)
  have "float_of_int 1000 = Inr (Fin 1000)"
    by (simp add: float_of_int_def fl_eval)
  then have quotient: "int_floordiv 1000 (NFloat (Fin 3)) = Inr (NFloat (Fin 333))"
    by (simp add: float_floordiv_def ieee_sub_def trunc_def fl_eval)
  then have "floordiv \<lparr>amount = 1000, currency = ''USD''\<rparr> (PyFloat (Fin 3))
       = Inl (ValueError ''Amount must be an integer'')"
    by (simp add: floordiv_def assert_operand_def Money_def assert_amount_def)
  with general quotient show ?thesis by simp
qed

section \<open>Rounding to whole major units\<close>

text \<open>
  Claim C4 does not hold of the code for every amount. \<^verbatim>\<open>__round__\<close> takes the quotient
  \<^verbatim>\<open>self.amount / 100\<close> as a float before it builds the \<^verbatim>\<open>Decimal\<close>, so a large amount is
  rounded to a float first. \<^verbatim>\<open>round(Money(1001))\<close> is \<^verbatim>\<open>Money(1000)\<close> and
  \<^verbatim>\<open>round(Money(1051))\<close> is \<^verbatim>\<open>Money(1100)\<close>, as stated; but the whole amount
  \<^verbatim>\<open>900719925474099300\<close>, which half-even rounding of the exact quotient leaves
  unchanged, becomes \<^verbatim>\<open>900719925474099200\<close>, and \<^verbatim>\<open>14073748835532949\<close>, whose exact
  quotient rounds down to \<^verbatim>\<open>140737488355329\<close>, is rounded up to
  \<^verbatim>\<open>14073748835533000\<close>.
\<close>

theorem round_money_float_quotient:
  "round_money \<lparr>amount = 1001, currency = ''USD''\<rparr> = Inr \<lparr>amount = 1000, currency = ''USD''\<rparr>
   \<and> round_money \<lparr>amount = 1051, currency = ''USD''\<rparr> = Inr \<lparr>amount = 1100, currency = ''USD''\<rparr>
   \<and> round_money \<lparr>amount = 900719925474099300, currency = ''USD''\<rparr>
       = Inr \<lparr>amount = 900719925474099200, currency = ''USD''\<rparr>
   \<and> round_half_even (900719925474099300 / 100) * 100 = 900719925474099300
   \<and> round_money \<lparr>amount = 14073748835532949, currency = ''USD''\<rparr>
       = Inr \<lparr>amount = 14073748835533000, currency = ''USD''\<rparr>
   \<and> round_half_even (14073748835532949 / 100) * 100 = 14073748835532900"
proof -
  have "round_money \<lparr>amount = 1001, currency = ''USD''\<rparr>
      = Inr \<lparr>amount = 1000, currency = ''USD''\<rparr>"
    by (simp add: round_money_def int_truediv_int_def fl_eval)
  moreover have "round_money \<lparr>amount = 1051, currency = ''USD''\<rparr>
      = Inr \<lparr>amount = 1100, currency = ''USD''\<rparr>"
    by (simp add: round_money_def int_truediv_int_def fl_eval)
  moreover have "round_money \<lparr>amount = 900719925474099300, currency = ''USD''\<rparr>
      = Inr \<lparr>amount = 900719925474099200, currency = ''USD''\<rparr>"
    by (simp add: round_money_def int_truediv_int_def fl_eval)
  moreover have "round_half_even (900719925474099300 / 100) * 100 = 900719925474099300"
    by (simp add: round_half_even_def Let_def)
  moreover have "round_money \<lparr>amount = 14073748835532949, currency = ''USD''\<rparr>
      = Inr \<lparr>amount = 14073748835533000, currency = ''USD''\<rparr>"
    by (simp add: round_money_def int_truediv_int_def fl_eval)
  moreover have "round_half_even (14073748835532949 / 100) * 100 = 14073748835532900"
    by (simp add: round_half_even_def Let_def)
  ultimately show ?thesis by blast
qed

section \<open>Parsing a currency string\<close>

lemma clean_drop:
  "\<not> is_digit c \<Longrightarrow> c \<noteq> CHR ''.'' \<Longrightarrow> clean (xs @ c # ys) = clean (xs @ ys)"
  by (simp add: clean_def)

lemma clean_idem: "clean (clean s) = clean s"
  by (simp add: clean_def)

lemma round_half_even_nonneg: "0 \<le> q \<Longrightarrow> 0 \<le> round_half_even q"
  by (simp add: round_half_even_def Let_def)

lemma pow2_pos: "0 < pow2 e"
  by (simp add: pow2_def)

lemma fl_round_not_NaN: "fl_round x \<noteq> NaN"
  by (simp add: fl_round_def Let_def)

lemma fl_round_nonneg:
  "0 \<le> x \<Longrightarrow> fl_round x = PInf \<or> (\<exists>y. 0 \<le> y \<and> fl_round x = Fin y)"
  using pow2_pos
  by (auto simp: fl_round_def Let_def round_half_even_nonneg less_imp_le)

lemma is_digit_val: "is_digit c \<Longrightarrow> (48::int) \<le> of_char c"
  by (auto simp: is_digit_def)

lemma foldl_digits_nonneg:
  "list_all is_digit s \<Longrightarrow> 0 \<le> acc \<Longrightarrow>
   0 \<le> foldl (\<lambda>acc c. 10 * acc + (of_char c - 48)) (acc::int) s"
proof (induction s arbitrary: acc)
  case Nil
  then show ?case by simp
next
  case (Cons c s)
  then have "0 \<le> 10 * acc + (of_char c - 48)"
    using is_digit_val [of c] by simp
  with Cons show ?case by simp
qed

lemma digits_val_nonneg: "list_all is_digit s \<Longrightarrow> 0 \<le> digits_val s"
  by (simp add: digits_val_def foldl_digits_nonneg)

lemma takeWhile_digits: "list_all is_digit (takeWhile is_digit s)"
  by (induction s) simp_all

lemma Decimal_nonneg: "Decimal s = Inr v \<Longrightarrow> 0 \<le> v"
  using takeWhile_digits [of s]
  by (auto simp: Decimal_def Let_def digits_val_nonneg split: if_splits)

lemma Decimal_not_ValueError: "Decimal s \<noteq> Inl (ValueError msg)"
  by (simp add: Decimal_def Let_def)

lemma from_float_nonneg:
  assumes "f = PInf \<or> (\<exists>y. 0 \<le> y \<and> f = Fin y)" and "from_float (PyFloat f) = Inr m"
  shows "0 \<le> amount m"
proof -
  from assms(1) show ?thesis
  proof
    assume "f = PInf"
    with assms(2) show ?thesis by (simp add: from_float_def)
  next
    assume "\<exists>y. 0 \<le> y \<and> f = Fin y"
    then obtain y where y: "0 \<le> y" "f = Fin y" by blast
    then have "0 \<le> y * 100" by simp
    from fl_round_nonneg [OF this] y assms(2) show ?thesis
      by (auto simp: from_float_def)
  qed
qed

lemma from_string_nonneg:
  assumes "from_string (PyStr s) = Inr m"
  shows "0 \<le> amount m"
proof -
  from assms obtain v where v: "Decimal (clean s) = Inr v"
    and ff: "from_float (PyFloat (fl_round v)) = Inr m"
    by (auto simp: from_string_def rbind_eq_Inr)
  from v have "0 \<le> v" by (rule Decimal_nonneg)
  then have "fl_round v = PInf \<or> (\<exists>y. 0 \<le> y \<and> fl_round v = Fin y)"
    by (rule fl_round_nonneg)
  then show ?thesis using ff by (rule from_float_nonneg)
qed

lemma mul100_not_NaN: "ieee_mul (fl_round v) (Fin 100) \<noteq> NaN"
  by (cases "fl_round v") (simp_all add: fl_round_not_NaN)

lemma math_floor_ValueError: "math_floor f = Inl (ValueError msg) \<Longrightarrow> f = NaN"
  by (cases f) simp_all

lemma from_string_str_not_ValueError: "from_string (PyStr s) \<noteq> Inl (ValueError msg)"
  using mul100_not_NaN math_floor_ValueError
  by (auto simp: from_string_def from_float_def rbind_eq_Inl Decimal_not_ValueError)

lemma from_string_dollars_5:
  "from_string (PyStr ''$5.00'') = Inr \<lparr>amount = 500, currency = ''USD''\<rparr>"
  by (simp add: from_string_def clean_def is_digit_def Decimal_def digits_val_def
      from_float_def fl_eval)

text \<open>
  Claim C6. \<^verbatim>\<open>from_string\<close> deletes every character that is neither a digit nor a full
  stop before it parses: a character \<open>c\<close> of that kind anywhere in the text changes
  nothing, and the result depends on the cleaned text only. A minus sign is such a
  character, so \<^verbatim>\<open>from_string("-$5.00")\<close> equals \<^verbatim>\<open>from_string("$5.00")\<close>, and no text
  parses to a negative amount. Currency symbols and grouping commas are ignored:
  \<^verbatim>\<open>int(from_string("$6,150,593.22"))\<close> is \<^verbatim>\<open>615059322\<close>.
\<close>

theorem from_string_strips:
  assumes "\<not> is_digit c" and "c \<noteq> CHR ''.''"
  shows "from_string (PyStr (xs @ c # ys)) = from_string (PyStr (xs @ ys))
     \<and> from_string (PyStr s) = from_string (PyStr (clean s))
     \<and> (\<forall>m. from_string (PyStr s) = Inr m \<longrightarrow> 0 \<le> amount m)
     \<and> from_string (PyStr ''-$5.00'') = from_string (PyStr ''$5.00'')
     \<and> rbind (from_string (PyStr ''$6,150,593.22'')) (\<lambda>m. Inr (to_integer m)) = Inr 615059322"
proof -
  have "from_string (PyStr (xs @ c # ys)) = from_string (PyStr (xs @ ys))"
    using assms by (simp add: from_string_def clean_drop)
  moreover have "from_string (PyStr s) = from_string (PyStr (clean s))"
    by (simp add: from_string_def clean_idem)
  moreover have "\<forall>m. from_string (PyStr s) = Inr m \<longrightarrow> 0 \<le> amount m"
    using from_string_nonneg by blast
  moreover have "from_string (PyStr ''-$5.00'') = from_string (PyStr ''$5.00'')"
    by (simp add: from_string_def clean_def is_digit_def)
  moreover have "rbind (from_string (PyStr ''$6,150,593.22'')) (\<lambda>m. Inr (to_integer m))
      = Inr 615059322"
    by (simp add: from_string_def clean_def is_digit_def Decimal_def digits_val_def
        from_float_def to_integer_def fl_eval)
  ultimately show ?thesis by blast
qed

theorem from_string_strips_witness:
  "\<not> is_digit CHR ''-'' \<and> CHR ''-'' \<noteq> CHR ''.''
   \<and> from_string (PyStr ''-$5.00'') = Inr \<lparr>amount = 500, currency = ''USD''\<rparr>
   \<and> from_string (PyStr ''$5.00'') = Inr \<lparr>amount = 500, currency = ''USD''\<rparr>
   \<and> (0::int) \<le> amount \<lparr>amount = 500, currency = ''USD''\<rparr>"
  using from_string_strips [of "CHR ''-''" "[]" "''$5.00''" "''-$5.00''"] from_string_dollars_5
  by (simp add: is_digit_def)

text \<open>
  Claim C10. \<^verbatim>\<open>from_string\<close> raises a \<^verbatim>\<open>ValueError\<close> exactly when its argument is not a
  string. On a string whose cleaned text is not a decimal literal, such as \<^verbatim>\<open>"$"\<close>
  (nothing is left) or \<^verbatim>\<open>"1.2.3"\<close> (two full stops), it raises
  \<^verbatim>\<open>decimal.InvalidOperation\<close>, which is neither a \<^verbatim>\<open>ValueError\<close> nor a
  \<^verbatim>\<open>ZeroDivisionError\<close>.
\<close>

theorem from_string_errors:
  "(\<exists>msg. from_string v = Inl (ValueError msg)) = (\<not> isinstance_str v)
   \<and> from_string (PyStr ''$'') = Inl InvalidOperation
   \<and> from_string (PyStr ''1.2.3'') = Inl InvalidOperation
   \<and> (\<forall>msg. InvalidOperation \<noteq> ValueError msg) \<and> InvalidOperation \<noteq> ZeroDivisionError"
proof -
  have "(\<exists>msg. from_string v = Inl (ValueError msg)) = (\<not> isinstance_str v)"
    by (cases v) (simp_all add: from_string_str_not_ValueError, simp_all add: from_string_def)
  moreover have "from_string (PyStr ''$'') = Inl InvalidOperation"
    by (simp add: from_string_def clean_def is_digit_def Decimal_def)
  moreover have "from_string (PyStr ''1.2.3'') = Inl InvalidOperation"
    by (simp add: from_string_def clean_def is_digit_def Decimal_def)
  ultimately show ?thesis by simp
qed

end
